theory Spec2Isabelle
  imports Complex_Main "HOL-Library.Sublist"
begin

section \<open>Python values, exceptions and string formatting\<close>

text \<open>
  The NeSPReSO client is Python. Exceptions are values of \<open>exn\<close>; a computation that can
  raise has type \<open>exn + 'a\<close> with \<open>Inl\<close> the raised exception. Only subclasses of Python's
  \<open>Exception\<close> are represented: these are what the source's \<open>except Exception\<close> clauses
  catch. Printing and warnings are effects the model leaves out.
\<close>

datatype exn =
    ValueError | TypeError | OverflowError | OSError | ImportError
  | RequestsTimeout             \<comment> \<open>\<open>requests.exceptions.Timeout\<close>\<close>
  | RequestsException           \<comment> \<open>any other \<open>requests.exceptions.RequestException\<close>\<close>
  | OtherException

definition then_do :: "exn + 'a \<Rightarrow> ('a \<Rightarrow> exn + 'b) \<Rightarrow> exn + 'b" where
  "then_do m f = (case m of Inl e \<Rightarrow> Inl e | Inr v \<Rightarrow> f v)"

fun map_exn :: "('a \<Rightarrow> exn + 'b) \<Rightarrow> 'a list \<Rightarrow> exn + 'b list" where
  "map_exn f [] = Inr []"
| "map_exn f (x # xs) =
     (case f x of Inl e \<Rightarrow> Inl e
      | Inr y \<Rightarrow> (case map_exn f xs of Inl e \<Rightarrow> Inl e | Inr ys \<Rightarrow> Inr (y # ys)))"

text \<open>\<open>str(n)\<close> and the \<open>d\<close> format of a Python int.\<close>

definition digit_char :: "nat \<Rightarrow> char" where
  "digit_char d = ''0123456789'' ! (d mod 10)"

fun str_nat :: "nat \<Rightarrow> string" where
  "str_nat n = (if n < 10 then [digit_char n] else str_nat (n div 10) @ [digit_char (n mod 10)])"

declare str_nat.simps [simp del]

definition str_int :: "int \<Rightarrow> string" where
  "str_int i = (if i < 0 then CHR ''-'' # str_nat (nat (- i)) else str_nat (nat i))"

definition zfill :: "nat \<Rightarrow> string \<Rightarrow> string" where
  "zfill w s = replicate (w - length s) CHR ''0'' @ s"

text \<open>\<open>f"{n:03d}"\<close> and friends, for \<open>n \<ge> 0\<close>: at least \<open>w\<close> digits, zero-padded on the left.\<close>

definition fmt_0wd :: "nat \<Rightarrow> nat \<Rightarrow> string" where
  "fmt_0wd w n = zfill w (str_nat n)"

definition startswith :: "string \<Rightarrow> string \<Rightarrow> bool" where
  "startswith s p = (take (length p) s = p)"




subsection \<open>Floats\<close>

text \<open>
  A Python float (binary64) by its exact value. Comparison and decimal formatting are exact
  functions of that value; no float arithmetic is modelled. Every finite binary64 number is a
  rational, not the other way round: the model's floats include the program's.
\<close>

datatype pyfloat = Finite rat | NegZero | PosInf | NegInf | NaN

fun float_key :: "pyfloat \<Rightarrow> (int \<times> rat) option" where
  "float_key (Finite q) = Some (0, q)"
| "float_key NegZero = Some (0, 0)"
| "float_key PosInf = Some (1, 0)"
| "float_key NegInf = Some (-1, 0)"
| "float_key NaN = None"

definition float_lt :: "pyfloat \<Rightarrow> pyfloat \<Rightarrow> bool" where
  "float_lt a b = (case (float_key a, float_key b) of
      (Some (i, x), Some (j, y)) \<Rightarrow> i < j \<or> (i = j \<and> x < y)
    | _ \<Rightarrow> False)"

definition float_le :: "pyfloat \<Rightarrow> pyfloat \<Rightarrow> bool" where
  "float_le a b = (case (float_key a, float_key b) of
      (Some (i, x), Some (j, y)) \<Rightarrow> i < j \<or> (i = j \<and> x \<le> y)
    | _ \<Rightarrow> False)"

text \<open>
  \<open>float(n)\<close> for a Python int: the nearest binary64 value, ties to even, and
  \<open>OverflowError\<close> when that would be \<open>2 ^ 1024\<close> or more. The result is an integer again.
\<close>

fun bit_length :: "nat \<Rightarrow> nat" where
  "bit_length n = (if n = 0 then 0 else Suc (bit_length (n div 2)))"

declare bit_length.simps [simp del]

definition round_binary64 :: "int \<Rightarrow> int" where
  "round_binary64 x =
     (let a = nat \<bar>x\<bar>; l = bit_length a
      in if l \<le> 53 then x
         else let sh = l - 53; q = a div 2 ^ sh; r = a mod 2 ^ sh; half = 2 ^ (sh - 1);
                  q' = (if r > half \<or> (r = half \<and> odd q) then q + 1 else q)
              in sgn x * int (q' * 2 ^ sh))"

definition float_of_int :: "int \<Rightarrow> exn + int" where
  "float_of_int x =
     (let f = round_binary64 x in if \<bar>f\<bar> \<ge> 2 ^ 1024 then Inl OverflowError else Inr f)"

text \<open>
  The fixed-point format \<open>f"{x:.nf}"\<close> of a float: the exact value rounded to \<open>n\<close> decimals,
  ties to even; the sign is kept when the digits are all zero.
\<close>

definition round_half_even :: "rat \<Rightarrow> int" where
  "round_half_even x =
     (let f = \<lfloor>x\<rfloor>; d = x - of_int f
      in if d < 1 / 2 then f else if d > 1 / 2 then f + 1 else if even f then f else f + 1)"

definition fixed_digits :: "nat \<Rightarrow> nat \<Rightarrow> string" where
  "fixed_digits n s =
     str_nat (s div 10 ^ n) @ (if n = 0 then [] else ''.'' @ zfill n (str_nat (s mod 10 ^ n)))"

fun fmt_f :: "nat \<Rightarrow> pyfloat \<Rightarrow> string" where
  "fmt_f n (Finite q) =
     (if q < 0 then ''-'' else []) @ fixed_digits n (nat (round_half_even (\<bar>q\<bar> * 10 ^ n)))"
| "fmt_f n NegZero = ''-'' @ fixed_digits n 0"
| "fmt_f n PosInf = ''inf''"
| "fmt_f n NegInf = ''-inf''"
| "fmt_f n NaN = ''nan''"










text \<open>
  \<open>str(x)\<close> and \<open>repr(x)\<close> of a float: the shortest string of digits that reads back as
  \<open>x\<close>, the nearest to \<open>x\<close> among the shortest; 17 digits always read back. With \<open>decpt\<close> the
  position of the decimal point after the first digit, the exponent form is used when
  \<open>decpt \<le> -4\<close> or \<open>decpt > 16\<close>, and \<open>.0\<close> is added to a whole number.
\<close>







text \<open>
  The values a caller passes where a number is expected: a float, an int, or something
  \<open>float()\<close> rejects (a non-numeric string, say).
\<close>

datatype pyval = PyFloat pyfloat | PyInt int | PyNonNumeric

fun py_float :: "pyval \<Rightarrow> exn + pyfloat" where
  "py_float (PyFloat f) = Inr f"
| "py_float (PyInt i) = then_do (float_of_int i) (\<lambda>f. Inr (Finite (of_int f)))"
| "py_float PyNonNumeric = Inl ValueError"

text \<open>\<open>f"{v:.nf}"\<close>: an int is converted to float first; other objects reject the format.\<close>

fun py_format_f :: "nat \<Rightarrow> pyval \<Rightarrow> exn + string" where
  "py_format_f n (PyFloat f) = Inr (fmt_f n f)"
| "py_format_f n (PyInt i) = then_do (float_of_int i) (\<lambda>f. Inr (fmt_f n (Finite (of_int f))))"
| "py_format_f n PyNonNumeric = Inl ValueError"

section \<open>The \<open>datetime\<close> library\<close>

text \<open>
  The proleptic Gregorian calendar of Python's \<open>datetime\<close> module, after its reference
  implementation: the ordinal of a date counts days with 0001-01-01 as day 1, and
  9999-12-31 (ordinal 3652059) is the last date. A \<open>datetime\<close> at midnight is represented by
  its ordinal; the client creates no other.
\<close>

type_synonym ymd = "int \<times> int \<times> int"

type_synonym datetime = int

definition MAXORDINAL :: int where
  "MAXORDINAL = 3652059"

definition is_leap :: "int \<Rightarrow> bool" where
  "is_leap y = (y mod 4 = 0 \<and> (y mod 100 \<noteq> 0 \<or> y mod 400 = 0))"

definition DAYS_IN_MONTH :: "int list" where
  "DAYS_IN_MONTH = [-1, 31, 28, 31, 30, 31, 30, 31, 31, 30, 31, 30, 31]"

definition DAYS_BEFORE_MONTH :: "int list" where
  "DAYS_BEFORE_MONTH = [-1, 0, 31, 59, 90, 120, 151, 181, 212, 243, 273, 304, 334]"

definition days_in_month :: "int \<Rightarrow> int \<Rightarrow> int" where
  "days_in_month y m = (if m = 2 \<and> is_leap y then 29 else DAYS_IN_MONTH ! nat m)"

definition days_before_year :: "int \<Rightarrow> int" where
  "days_before_year year = (let y = year - 1 in y * 365 + y div 4 - y div 100 + y div 400)"

definition days_before_month :: "int \<Rightarrow> int \<Rightarrow> int" where
  "days_before_month y m = DAYS_BEFORE_MONTH ! nat m + (if m > 2 \<and> is_leap y then 1 else 0)"

definition ymd2ord :: "ymd \<Rightarrow> int" where
  "ymd2ord d = (case d of (y, m, dd) \<Rightarrow> days_before_year y + days_before_month y m + dd)"

definition valid_ymd :: "ymd \<Rightarrow> bool" where
  "valid_ymd d = (case d of (y, m, dd) \<Rightarrow>
     1 \<le> y \<and> y \<le> 9999 \<and> 1 \<le> m \<and> m \<le> 12 \<and> 1 \<le> dd \<and> dd \<le> days_in_month y m)"

definition ord2ymd :: "int \<Rightarrow> ymd" where
  "ord2ymd ordinal =
    (let n = ordinal - 1;
         n400 = n div 146097; n = n mod 146097;
         year = n400 * 400 + 1;
         n100 = n div 36524; n = n mod 36524;
         n4 = n div 1461; n = n mod 1461;
         n1 = n div 365; n = n mod 365;
         year = year + n100 * 100 + n4 * 4 + n1
     in if n1 = 4 \<or> n100 = 4 then (year - 1, 12, 31)
        else
          let leapyear = (n1 = 3 \<and> (n4 \<noteq> 24 \<or> n100 = 3));
              month = (n + 50) div 32;
              preceding = DAYS_BEFORE_MONTH ! nat month + (if month > 2 \<and> leapyear then 1 else 0)
          in if preceding > n
             then let month = month - 1;
                      preceding = preceding
                        - (DAYS_IN_MONTH ! nat month + (if month = 2 \<and> leapyear then 1 else 0))
                  in (year, month, n - preceding + 1)
             else (year, month, n - preceding + 1))"

text \<open>\<open>datetime(y, m, d)\<close> raises \<open>ValueError\<close> for a date that does not exist.\<close>

definition mk_datetime :: "ymd \<Rightarrow> exn + datetime" where
  "mk_datetime d = (if valid_ymd d then Inr (ymd2ord d) else Inl ValueError)"

text \<open>
  A \<open>timedelta\<close> is a whole number of microseconds. \<open>timedelta(days=d)\<close> for a float
  \<open>d\<close>, as the C implementation computes it: the whole days are taken exactly; the
  fraction is multiplied by the microseconds of a day in binary64; and the sum is rounded to
  a whole microsecond, ties to even. A NaN raises \<open>ValueError\<close>, an infinity and more than
  999999999 days raise \<open>OverflowError\<close>. For an int \<open>d\<close> the product is exact.
\<close>

definition US_PER_DAY :: int where
  "US_PER_DAY = 86400000000"

definition check_delta :: "int \<Rightarrow> exn + int" where
  "check_delta us = (if \<bar>us div US_PER_DAY\<bar> > 999999999 then Inl OverflowError else Inr us)"


definition timedelta_int_days :: "int \<Rightarrow> exn + int" where
  "timedelta_int_days d = check_delta (d * US_PER_DAY)"

text \<open>
  \<open>datetime + timedelta\<close>, for a \<open>datetime\<close> at midnight: the date of the sum, the time of
  day left out, since the client prints dates only. Out of range it raises
  \<open>OverflowError\<close>.
\<close>

definition datetime_add :: "datetime \<Rightarrow> int \<Rightarrow> exn + datetime" where
  "datetime_add dt delta =
     (let ordinal = dt + delta div US_PER_DAY
      in if 0 < ordinal \<and> ordinal \<le> MAXORDINAL then Inr ordinal else Inl OverflowError)"

text \<open>
  \<open>strftime("%Y-%m-%d")\<close>. Month and day have two digits. The digits of the year are those of
  the platform's C library: \<open>year_width\<close> is the least number of digits it prints for
  \<open>%Y\<close>, 4 where years below 1000 are zero-padded and 1 where they are not, as with glibc.
  \<open>iso_format\<close> is the rendering as YYYY-MM-DD.
\<close>

definition date_format :: "nat \<Rightarrow> ymd \<Rightarrow> string" where
  "date_format year_width d = (case d of (y, m, dd) \<Rightarrow>
     fmt_0wd year_width (nat y) @ ''-'' @ fmt_0wd 2 (nat m) @ ''-'' @ fmt_0wd 2 (nat dd))"

definition iso_format :: "ymd \<Rightarrow> string" where
  "iso_format d = date_format 4 d"

definition strftime_ymd :: "nat \<Rightarrow> datetime \<Rightarrow> string" where
  "strftime_ymd year_width dt = date_format year_width (ord2ymd dt)"

text \<open>
  \<open>datetime.strptime(s, "%Y-%m-%d")\<close>. The library matches the regular expression
  \<open>(\d\d\d\d)-(1[0-2]|0[1-9]|[1-9])-(3[0-1]|[1-2]\d|0[1-9]|[1-9]| [1-9])\<close> at the start of
  \<open>s\<close>, raises \<open>ValueError\<close> when there is no match or text remains after it, and builds the
  date, which raises \<open>ValueError\<close> when the date does not exist. In this expression the first
  alternative that matches is the only one that can lead to a match of the whole.
\<close>

definition is_digit :: "char \<Rightarrow> bool" where
  "is_digit c = (c \<in> set ''0123456789'')"

definition digit_val :: "char \<Rightarrow> int" where
  "digit_val c = int (of_char c) - 48"

definition match_year :: "string \<Rightarrow> (int \<times> string) option" where
  "match_year s = (case s of
      a # b # c # d # rest \<Rightarrow>
        if is_digit a \<and> is_digit b \<and> is_digit c \<and> is_digit d
        then Some (1000 * digit_val a + 100 * digit_val b + 10 * digit_val c + digit_val d, rest)
        else None
    | _ \<Rightarrow> None)"

definition match_month :: "string \<Rightarrow> (int \<times> string) option" where
  "match_month s = (case s of
      [] \<Rightarrow> None
    | [a] \<Rightarrow> if a \<in> set ''123456789'' then Some (digit_val a, []) else None
    | a # b # rest \<Rightarrow>
        if a = CHR ''1'' \<and> b \<in> set ''012'' then Some (10 + digit_val b, rest)
        else if a = CHR ''0'' \<and> b \<in> set ''123456789'' then Some (digit_val b, rest)
        else if a \<in> set ''123456789'' then Some (digit_val a, b # rest)
        else None)"

definition match_day :: "string \<Rightarrow> (int \<times> string) option" where
  "match_day s = (case s of
      [] \<Rightarrow> None
    | [a] \<Rightarrow> if a \<in> set ''123456789'' then Some (digit_val a, []) else None
    | a # b # rest \<Rightarrow>
        if a = CHR ''3'' \<and> b \<in> set ''01'' then Some (30 + digit_val b, rest)
        else if a \<in> set ''12'' \<and> is_digit b then Some (10 * digit_val a + digit_val b, rest)
        else if a = CHR ''0'' \<and> b \<in> set ''123456789'' then Some (digit_val b, rest)
        else if a \<in> set ''123456789'' then Some (digit_val a, b # rest)
        else if a = CHR '' '' \<and> b \<in> set ''123456789'' then Some (digit_val b, rest)
        else None)"

definition match_dash :: "string \<Rightarrow> string option" where
  "match_dash s = (case s of c # rest \<Rightarrow> if c = CHR ''-'' then Some rest else None | [] \<Rightarrow> None)"

definition strptime_ymd :: "string \<Rightarrow> exn + datetime" where
  "strptime_ymd s =
     (case match_year s of None \<Rightarrow> Inl ValueError | Some (y, s1) \<Rightarrow>
     (case match_dash s1 of None \<Rightarrow> Inl ValueError | Some s2 \<Rightarrow>
     (case match_month s2 of None \<Rightarrow> Inl ValueError | Some (m, s3) \<Rightarrow>
     (case match_dash s3 of None \<Rightarrow> Inl ValueError | Some s4 \<Rightarrow>
     (case match_day s4 of None \<Rightarrow> Inl ValueError | Some (d, s5) \<Rightarrow>
        if s5 \<noteq> [] then Inl ValueError else mk_datetime (y, m, d))))))"

section \<open>\<open>utils.py\<close>: input normalisation\<close>










datatype float_list = TScalar pyfloat | TList "pyfloat list"






section \<open>The outside world\<close>

text \<open>
  What the client does to the outside: HTTP requests and files. The state \<open>world\<close> records
  the requests made so far and the contents of the files; the environment \<open>env\<close> fixes how
  the outside answers. A request is recorded with the arguments the source passes to the HTTP
  library: an argument the source leaves out is \<open>None\<close> here.
\<close>

type_synonym bytes = string

datatype timeout_arg =
    SingleTimeout nat        \<comment> \<open>\<open>timeout=t\<close> of \<open>requests\<close>: one number of seconds\<close>
  | SplitTimeout nat nat     \<comment> \<open>\<open>httpx.Timeout(t, connect=c)\<close>\<close>

datatype body =
    ProfileBody float_list float_list "string list"
  | GridBody string "pyfloat list option" "pyfloat option"

record http_call =
  call_url :: string
  call_json :: body
  call_timeout :: timeout_arg
  call_follow_redirects :: "bool option"

record response =
  status_code :: int
  content_type :: "string option"    \<comment> \<open>the \<open>Content-Type\<close> header, when present\<close>
  resp_text :: string
  resp_content :: bytes

record world =
  posts :: "http_call list"
  files :: "string \<rightharpoonup> bytes"

text \<open>
  A dataset as the merge step sees it: the records along the dimension \<open>profile_number\<close>,
  each with its coordinate value, and the global attributes.
\<close>

record 'r dataset =
  ds_records :: "(int \<times> 'r) list"
  ds_attrs :: "(string \<times> string) list"

record 'r env =
  respond :: "http_call list \<Rightarrow> http_call \<Rightarrow> exn + response"
  open_wb :: "string \<Rightarrow> exn option"       \<comment> \<open>the exception that writing the file raises, if any\<close>
  path_exists :: "string \<Rightarrow> bool"
  makedirs :: "string \<Rightarrow> exn option"
  xarray_installed :: bool
  nc_decode :: "bytes \<Rightarrow> 'r dataset option" \<comment> \<open>\<open>None\<close>: not a NetCDF file\<close>
  nc_encode :: "'r dataset \<Rightarrow> bytes"
  platform_year_width :: nat                \<comment> \<open>the digits of \<open>%Y\<close> on this platform\<close>

definition http_post :: "'r env \<Rightarrow> http_call \<Rightarrow> world \<Rightarrow> (exn + response) \<times> world" where
  "http_post env call w = (respond env (posts w) call, w\<lparr>posts := posts w @ [call]\<rparr>)"

definition write_file :: "'r env \<Rightarrow> string \<Rightarrow> bytes \<Rightarrow> world \<Rightarrow> (exn + unit) \<times> world" where
  "write_file env name data w =
     (case open_wb env name of
        Some e \<Rightarrow> (Inl e, w)
      | None \<Rightarrow> (Inr (), w\<lparr>files := (files w)(name \<mapsto> data)\<rparr>))"





section \<open>\<open>utils.py\<close>: global attributes\<close>



section \<open>\<open>profile.py\<close>\<close>

definition DEFAULT_API :: string where
  "DEFAULT_API = ''http://localhost:5000/v1/profile''"

definition DEFAULT_TIMEOUT :: nat where
  "DEFAULT_TIMEOUT = 1800"

definition DEFAULT_CONNECT_TIMEOUT :: nat where
  "DEFAULT_CONNECT_TIMEOUT = 10"

text \<open>
  \<open>fetch_predictions\<close>, run to completion. \<open>profile_request\<close> is what lines 36 to 47 pass to
  the HTTP client (\<open>api_url or DEFAULT_API\<close>, the JSON body, the timeouts, no redirects). The
  four \<open>return None\<close> of the source are the four \<open>Inr None\<close> here, the first and the last
  in the handlers of the two \<open>try\<close> blocks.
\<close>

definition profile_request ::
  "float_list \<Rightarrow> float_list \<Rightarrow> string list \<Rightarrow> string option \<Rightarrow> http_call" where
  "profile_request lat lon date api_url =
     (let api_url = (case api_url of None \<Rightarrow> DEFAULT_API
                     | Some u \<Rightarrow> if u = [] then DEFAULT_API else u);
          data = ProfileBody lat lon date;
          timeout = SplitTimeout DEFAULT_TIMEOUT DEFAULT_CONNECT_TIMEOUT
      in \<lparr>call_url = api_url, call_json = data, call_timeout = timeout,
          call_follow_redirects = Some False\<rparr>)"

definition fetch_predictions ::
  "'r env \<Rightarrow> float_list \<Rightarrow> float_list \<Rightarrow> string list \<Rightarrow> string \<Rightarrow> string option \<Rightarrow> world
     \<Rightarrow> (exn + string option) \<times> world" where
  "fetch_predictions env lat lon date filename api_url w =
     (case http_post env (profile_request lat lon date api_url) w of
        (Inl exc, w1) \<Rightarrow> (Inr None, w1)
      | (Inr response, w1) \<Rightarrow>
          if status_code response \<noteq> 200 then (Inr None, w1)
          else if \<not> startswith (case content_type response of None \<Rightarrow> [] | Some c \<Rightarrow> c)
                                  ''application/x-netcdf''
          then (Inr None, w1)
          else (case write_file env filename (resp_content response) w1 of
                  (Inl exc, w2) \<Rightarrow> (Inr None, w2)
                | (Inr _, w2) \<Rightarrow> (Inr (Some filename), w2)))"











section \<open>\<open>grid.py\<close>\<close>

definition GRID_OUTPUT_DIR :: string where
  "GRID_OUTPUT_DIR = ''uses/grid''"

definition DEFAULT_API_URL :: string where
  "DEFAULT_API_URL = ''https://ozavala.coaps.fsu.edu/nespreso_grid''"

definition GRID_DEFAULT_TIMEOUT :: nat where
  "GRID_DEFAULT_TIMEOUT = 600"

definition ensure_grid_output_dir :: "'r env \<Rightarrow> exn + unit" where
  "ensure_grid_output_dir env =
     (if \<not> path_exists env GRID_OUTPUT_DIR
      then (case makedirs env GRID_OUTPUT_DIR of Some e \<Rightarrow> Inl e | None \<Rightarrow> Inr ())
      else Inr ())"

text \<open>
  The result dictionary of \<open>query_grid\<close>, a key that is absent being \<open>None\<close>. The value of
  \<open>error\<close> is a text, or \<open>str(exc)\<close> of a caught exception.
\<close>

datatype error_text = Text string | StrOfExn exn

record grid_result =
  r_success :: bool
  r_filename :: "string option"
  r_size_bytes :: "nat option"
  r_status_code :: "int option"
  r_error :: "error_text option"

definition failure :: "string \<Rightarrow> grid_result" where
  "failure msg = \<lparr>r_success = False, r_filename = None, r_size_bytes = None,
                  r_status_code = None, r_error = Some (Text msg)\<rparr>"

definition failure_exn :: "exn \<Rightarrow> grid_result" where
  "failure_exn exc = \<lparr>r_success = False, r_filename = None, r_size_bytes = None,
                      r_status_code = None, r_error = Some (StrOfExn exc)\<rparr>"

text \<open>
  The \<open>bbox\<close> argument: a list or tuple of values, or an object that is neither.
\<close>

datatype bbox_arg = BBoxSeq "pyval list" | BBoxOther

text \<open>
  Lines 42 to 54: the checks of \<open>bbox\<close>, with the message of the check that fails or the
  four floats that go into the request.
\<close>

fun validate_bbox :: "bbox_arg \<Rightarrow> string + pyfloat list" where
  "validate_bbox BBoxOther = Inl ''Invalid bbox. Use [lon_min, lat_min, lon_max, lat_max].''"
| "validate_bbox (BBoxSeq bbox) =
     (if \<not> (length bbox = 4)
      then Inl ''Invalid bbox. Use [lon_min, lat_min, lon_max, lat_max].''
      else
        (case map_exn py_float bbox of
           Inl exc \<Rightarrow>
             Inl ''Invalid bbox values. Must be numeric [lon_min, lat_min, lon_max, lat_max].''
         | Inr fs \<Rightarrow>
             let lon_min = fs ! 0; lat_min = fs ! 1; lon_max = fs ! 2; lat_max = fs ! 3
             in if \<not> (float_le (Finite (- 180)) lon_min \<and> float_le lon_min (Finite 180)
                      \<and> float_le (Finite (- 180)) lon_max \<and> float_le lon_max (Finite 180)
                      \<and> float_le (Finite (- 90)) lat_min \<and> float_le lat_min (Finite 90)
                      \<and> float_le (Finite (- 90)) lat_max \<and> float_le lat_max (Finite 90))
                then Inl ''BBOX out of range. Lon in [-180,180], Lat in [-90,90].''
                else if \<not> (float_lt lon_min lon_max \<and> float_lt lat_min lat_max)
                then Inl ''BBOX order invalid. Require lon_min < lon_max and lat_min < lat_max.''
                else Inr [lon_min, lat_min, lon_max, lat_max]))"

text \<open>Lines 55 to 62: the checks of \<open>resolution\<close>.\<close>

definition validate_resolution :: "pyval \<Rightarrow> string + pyfloat" where
  "validate_resolution resolution =
     (case py_float resolution of
        Inl exc \<Rightarrow> Inl ''Resolution must be a positive number (degrees).''
      | Inr res \<Rightarrow>
          if \<not> float_lt (Finite 0) res then Inl ''Resolution must be > 0 (degrees).''
          else Inr res)"

text \<open>
  \<open>if bbox is not None:\<close> and \<open>if resolution is not None:\<close> around these checks: what
  goes into the request under the keys \<open>bbox\<close> and \<open>resolution\<close>, or the message.
\<close>

definition checked_bbox :: "bbox_arg option \<Rightarrow> string + pyfloat list option" where
  "checked_bbox bbox =
     (case bbox of
        None \<Rightarrow> Inr None
      | Some b \<Rightarrow> (case validate_bbox b of Inl msg \<Rightarrow> Inl msg | Inr fs \<Rightarrow> Inr (Some fs)))"

definition checked_resolution :: "pyval option \<Rightarrow> string + pyfloat option" where
  "checked_resolution resolution =
     (case resolution of
        None \<Rightarrow> Inr None
      | Some r \<Rightarrow> (case validate_resolution r of Inl msg \<Rightarrow> Inl msg
                   | Inr res \<Rightarrow> Inr (Some res)))"

text \<open>
  Lines 83 to 90: the name of the output file. \<open>if bbox:\<close> is false for \<open>None\<close> and for an
  empty sequence; \<open>bbox[i]\<close> raises on a sequence that is too short.
\<close>

definition py_index :: "'a list \<Rightarrow> nat \<Rightarrow> exn + 'a" where
  "py_index xs i = (if i < length xs then Inr (xs ! i) else Inl OtherException)"

definition bbox_part :: "bbox_arg option \<Rightarrow> exn + string" where
  "bbox_part bbox =
     (case bbox of
        None \<Rightarrow> Inr []
      | Some BBoxOther \<Rightarrow> Inl TypeError
      | Some (BBoxSeq vs) \<Rightarrow>
          if vs = [] then Inr []
          else
            then_do (then_do (py_index vs 0) (py_format_f 2)) (\<lambda>a.
            then_do (then_do (py_index vs 1) (py_format_f 2)) (\<lambda>b.
            then_do (then_do (py_index vs 2) (py_format_f 2)) (\<lambda>c.
            then_do (then_do (py_index vs 3) (py_format_f 2)) (\<lambda>d.
              Inr (''_bbox_'' @ a @ ''_'' @ b @ ''_'' @ c @ ''_'' @ d))))))"

definition resolution_part :: "pyval option \<Rightarrow> exn + string" where
  "resolution_part resolution =
     (case resolution of
        None \<Rightarrow> Inr []
      | Some r \<Rightarrow> then_do (py_float r) (\<lambda>f. Inr (''_res_'' @ fmt_f 3 f)))"

definition grid_output_filename ::
  "string \<Rightarrow> bbox_arg option \<Rightarrow> pyval option \<Rightarrow> exn + string" where
  "grid_output_filename date_str bbox resolution =
     then_do (bbox_part bbox) (\<lambda>bp.
     then_do (resolution_part resolution) (\<lambda>rp.
       Inr ((''nespreso_grid_'' @ date_str) @ bp @ rp @ ''.nc'')))"

text \<open>
  The request of line 79: \<open>requests.post(api_url, json=request_data, timeout=DEFAULT_TIMEOUT)\<close>,
  with the keys of \<open>request_data\<close> that were set.
\<close>

definition grid_request ::
  "string \<Rightarrow> pyfloat list option \<Rightarrow> pyfloat option \<Rightarrow> string \<Rightarrow> http_call" where
  "grid_request date_str request_bbox request_resolution api_url =
     \<lparr>call_url = api_url,
      call_json = GridBody date_str request_bbox request_resolution,
      call_timeout = SingleTimeout GRID_DEFAULT_TIMEOUT,
      call_follow_redirects = None\<rparr>"

text \<open>
  \<open>query_grid\<close>. \<open>ensure_grid_output_dir()\<close> stands outside any \<open>try\<close>. The request and all
  that follows it are inside one \<open>try\<close> with three handlers: the one for a timeout gives a
  fixed text, the other two give \<open>str(exc)\<close>.
\<close>

definition query_grid ::
  "'r env \<Rightarrow> string \<Rightarrow> bbox_arg option \<Rightarrow> pyval option \<Rightarrow> string \<Rightarrow> world
     \<Rightarrow> (exn + grid_result) \<times> world" where
  "query_grid env date_str bbox resolution api_url w =
     (case ensure_grid_output_dir env of
        Inl e \<Rightarrow> (Inl e, w)
      | Inr _ \<Rightarrow>
     (case strptime_ymd date_str of
        Inl exc \<Rightarrow> (Inr (failure ''Invalid date. Use YYYY-MM-DD.''), w)
      | Inr _ \<Rightarrow>
     (case checked_bbox bbox of
        Inl msg \<Rightarrow> (Inr (failure msg), w)
      | Inr request_bbox \<Rightarrow>
     (case checked_resolution resolution of
        Inl msg \<Rightarrow> (Inr (failure msg), w)
      | Inr request_resolution \<Rightarrow>
          let call = grid_request date_str request_bbox request_resolution api_url
          in (case http_post env call w of
                (Inl exc, w1) \<Rightarrow>
                  if exc = RequestsTimeout then (Inr (failure ''Request timed out''), w1)
                  else (Inr (failure_exn exc), w1)
              | (Inr response, w1) \<Rightarrow>
                  if status_code response = 200 then
                    (case grid_output_filename date_str bbox resolution of
                       Inl exc \<Rightarrow> (Inr (failure_exn exc), w1)
                     | Inr output_filename \<Rightarrow>
                         let output_path = GRID_OUTPUT_DIR @ ''/'' @ output_filename
                         in (case write_file env output_path (resp_content response) w1 of
                               (Inl exc, w2) \<Rightarrow> (Inr (failure_exn exc), w2)
                             | (Inr _, w2) \<Rightarrow>
                                 (Inr \<lparr>r_success = True, r_filename = Some output_path,
                                       r_size_bytes = Some (length (resp_content response)),
                                       r_status_code = Some (status_code response),
                                       r_error = None\<rparr>, w2)))
                  else
                    (Inr \<lparr>r_success = False, r_filename = None, r_size_bytes = None,
                          r_status_code = Some (status_code response),
                          r_error = Some (Text (resp_text response))\<rparr>, w1))))))"

record multi_result =
  m_total :: nat
  m_successful :: nat
  m_failed :: nat
  m_results :: "grid_result list"

fun query_dates_loop ::
  "'r env \<Rightarrow> bbox_arg option \<Rightarrow> pyval option \<Rightarrow> string \<Rightarrow> string list
     \<Rightarrow> grid_result list \<Rightarrow> nat \<Rightarrow> nat \<Rightarrow> world
     \<Rightarrow> (exn + grid_result list \<times> nat \<times> nat) \<times> world" where
  "query_dates_loop env bbox resolution api_url [] results successful failed w =
     (Inr (results, successful, failed), w)"
| "query_dates_loop env bbox resolution api_url (date_str # rest) results successful failed w =
     (case query_grid env date_str bbox resolution api_url w of
        (Inl e, w1) \<Rightarrow> (Inl e, w1)
      | (Inr result, w1) \<Rightarrow>
          if r_success result
          then query_dates_loop env bbox resolution api_url rest (results @ [result])
                 (successful + 1) failed w1
          else query_dates_loop env bbox resolution api_url rest (results @ [result])
                 successful (failed + 1) w1)"

definition query_multiple_dates ::
  "'r env \<Rightarrow> string list \<Rightarrow> bbox_arg option \<Rightarrow> pyval option \<Rightarrow> string \<Rightarrow> world
     \<Rightarrow> (exn + multi_result) \<times> world" where
  "query_multiple_dates env date_list bbox resolution api_url w =
     (case query_dates_loop env bbox resolution api_url date_list [] 0 0 w of
        (Inl e, w1) \<Rightarrow> (Inl e, w1)
      | (Inr (results, successful, failed), w1) \<Rightarrow>
          (Inr \<lparr>m_total = length date_list, m_successful = successful, m_failed = failed,
                m_results = results\<rparr>, w1))"

text \<open>
  \<open>generate_date_range\<close>: both \<open>strptime\<close> calls and the loop stand outside any
  \<open>try\<close>. The first argument is the platform's \<open>year_width\<close>.
\<close>

function date_loop :: "nat \<Rightarrow> datetime \<Rightarrow> datetime \<Rightarrow> string list \<Rightarrow> exn + string list" where
  "date_loop year_width current end date_list =
     (if current \<le> end
      then (case then_do (timedelta_int_days 1) (datetime_add current) of
              Inl e \<Rightarrow> Inl e
            | Inr next \<Rightarrow>
                date_loop year_width next end (date_list @ [strftime_ymd year_width current]))
      else Inr date_list)"
  by pat_completeness auto
termination
  by (relation "measure (\<lambda>(year_width, current, end, date_list). nat (end - current + 1))")
     (auto simp: datetime_add_def timedelta_int_days_def check_delta_def US_PER_DAY_def
        then_do_def Let_def split: if_splits)

declare date_loop.simps [simp del]

definition generate_date_range :: "nat \<Rightarrow> string \<Rightarrow> string \<Rightarrow> exn + string list" where
  "generate_date_range year_width start_date end_date =
     then_do (strptime_ymd start_date) (\<lambda>start.
     then_do (strptime_ymd end_date) (\<lambda>end.
       date_loop year_width start end []))"

definition get_common_bbox_regions :: "(string \<times> pyfloat list) list" where
  "get_common_bbox_regions =
     [(''full_gulf'', [Finite (- 97), Finite 18, Finite (- 82), Finite 31]),
      (''western_gulf'', [Finite (- 97), Finite 20, Finite (- 90), Finite 29]),
      (''eastern_gulf'', [Finite (- 90), Finite 20, Finite (- 82), Finite 29]),
      (''northern_gulf'', [Finite (- 97), Finite 25, Finite (- 82), Finite 29]),
      (''southern_gulf'', [Finite (- 97), Finite 18, Finite (- 82), Finite 25]),
      (''florida_straits'', [Finite (- 82), Finite 24, Finite (- 79), Finite 26]),
      (''yucatan_channel'', [Finite (- 87), Finite 20, Finite (- 84), Finite 22])]"

section \<open>Example environments\<close>

text \<open>
  Concrete worlds and environments for running the model: a service that answers every
  request with a NetCDF body, on a platform that prints years as glibc does, and variations
  where something fails. In these examples a
  NetCDF file holds one record, whose data is the text of the file.
\<close>

definition example_world :: world where
  "example_world = \<lparr>posts = [], files = Map.empty\<rparr>"

definition netcdf_response :: response where
  "netcdf_response = \<lparr>status_code = 200, content_type = Some ''application/x-netcdf'',
                        resp_text = [], resp_content = ''CDF''\<rparr>"

definition error_response :: response where
  "error_response = \<lparr>status_code = 500, content_type = Some ''application/json'',
                       resp_text = ''server error'', resp_content = ''server error''\<rparr>"

definition html_response :: response where
  "html_response = \<lparr>status_code = 200, content_type = Some ''text/html'',
                      resp_text = ''<html>'', resp_content = ''<html>''\<rparr>"

definition example_env :: "string env" where
  "example_env =
     \<lparr>respond = (\<lambda>history call. Inr netcdf_response),
      open_wb = (\<lambda>name. None),
      path_exists = (\<lambda>path. True),
      makedirs = (\<lambda>path. None),
      xarray_installed = True,
      nc_decode = (\<lambda>b. Some \<lparr>ds_records = [(0, b)], ds_attrs = []\<rparr>),
      nc_encode = (\<lambda>ds. concat (map snd (ds_records ds))),
      platform_year_width = 1\<rparr>"

definition env_error_status :: "string env" where
  "env_error_status = example_env\<lparr>respond := (\<lambda>history call. Inr error_response)\<rparr>"

definition env_html :: "string env" where
  "env_html = example_env\<lparr>respond := (\<lambda>history call. Inr html_response)\<rparr>"

definition env_timeout :: "string env" where
  "env_timeout = example_env\<lparr>respond := (\<lambda>history call. Inl RequestsTimeout)\<rparr>"

definition env_read_only :: "string env" where
  "env_read_only = example_env\<lparr>open_wb := (\<lambda>name. Some OSError)\<rparr>"









section \<open>Properties of the library model\<close>

text \<open>Equations that evaluate the string functions on numerals.\<close>

lemma str_nat_numeral:
  "str_nat (numeral k) =
     (if (numeral k :: nat) < 10 then [digit_char (numeral k)]
      else str_nat (numeral k div 10) @ [digit_char (numeral k mod 10)])"
  by (rule str_nat.simps)

lemma str_nat_small: "str_nat 0 = ''0''" "str_nat 1 = ''1''" "str_nat (Suc 0) = ''1''"
  by (simp_all add: str_nat.simps digit_char_def)

lemma replicate_numeral: "replicate (numeral k) x = x # replicate (pred_numeral k) x"
  by (simp add: numeral_eq_Suc)

lemmas string_evals =
  str_nat_numeral str_nat_small digit_char_def str_int_def fmt_0wd_def zfill_def
  replicate_numeral iso_format_def


lemma bit_length_lower: "n \<noteq> 0 \<Longrightarrow> 2 ^ (bit_length n - 1) \<le> n"
proof (induction n rule: bit_length.induct)
  case (1 n)
  show ?case
  proof (cases "n div 2 = 0")
    case True
    with "1.prems" show ?thesis by (simp add: bit_length.simps[of n] bit_length.simps[of 0])
  next
    case False
    with "1.IH" "1.prems" have ih: "2 ^ (bit_length (n div 2) - 1) \<le> n div 2" by blast
    have pos: "bit_length (n div 2) \<noteq> 0" using False by (simp add: bit_length.simps[of "n div 2"])
    then obtain j where j: "bit_length (n div 2) = Suc j" by (cases "bit_length (n div 2)") auto
    have "bit_length n = Suc (Suc j)" using "1.prems" j by (simp add: bit_length.simps[of n])
    moreover have "2 * 2 ^ j \<le> n" using ih j by simp
    ultimately show ?thesis by simp
  qed
qed


lemma round_binary64_big:
  assumes "K \<le> 2 ^ 52" and "K \<le> \<bar>x\<bar>"
  shows "K \<le> \<bar>round_binary64 x\<bar>"
proof (cases "bit_length (nat \<bar>x\<bar>) \<le> 53")
  case True
  then show ?thesis using assms by (simp add: round_binary64_def Let_def)
next
  case False
  define a where "a = nat \<bar>x\<bar>"
  define sh where "sh = bit_length a - 53"
  define q where "q = a div 2 ^ sh"
  have l: "bit_length a = sh + 53" using False by (simp add: sh_def a_def)
  have a0: "a \<noteq> 0" using False by (auto simp: a_def bit_length.simps[of 0])
  have "2 ^ (bit_length a - 1) \<le> a" using a0 by (rule bit_length_lower)
  then have "(2::nat) ^ (52 + sh) \<le> a" using l by (simp add: add.commute)
  then have "(2::nat) ^ 52 * 2 ^ sh \<le> a" by (simp add: power_add)
  then have q52: "2 ^ 52 \<le> q" unfolding q_def
    by (metis div_le_mono div_mult_self_is_m zero_less_numeral zero_less_power)
  have x0: "x \<noteq> 0" using a0 by (auto simp: a_def)
  define q' where "q' = (if a mod 2 ^ sh > 2 ^ (sh - 1) \<or> (a mod 2 ^ sh = 2 ^ (sh - 1) \<and> odd q)
                         then q + 1 else q)"
  have "round_binary64 x = sgn x * int (q' * 2 ^ sh)"
    using False unfolding round_binary64_def Let_def a_def[symmetric] sh_def[symmetric]
      q_def[symmetric] q'_def by simp
  moreover have "q \<le> q'" by (simp add: q'_def)
  ultimately have "\<exists>q'. q \<le> q' \<and> round_binary64 x = sgn x * int (q' * 2 ^ sh)" by blast
  then obtain q' where q': "q \<le> q'" and r: "round_binary64 x = sgn x * int (q' * 2 ^ sh)" by blast
  have "(2::nat) ^ 52 * 1 \<le> q' * 2 ^ sh" using q52 q' by (intro mult_le_mono) auto
  then have "(2::int) ^ 52 \<le> int (q' * 2 ^ sh)" by (metis mult.right_neutral of_nat_le_iff of_nat_numeral of_nat_power)
  moreover have "\<bar>round_binary64 x\<bar> = int (q' * 2 ^ sh)" using r x0 by (simp add: abs_mult abs_sgn_eq)
  ultimately show ?thesis using assms by linarith
qed

lemma mk_datetime_year1: "mk_datetime (1, 1, 1) = Inr 1"
  by (simp add: mk_datetime_def valid_ymd_def days_in_month_def DAYS_IN_MONTH_def ymd2ord_def
      days_before_year_def days_before_month_def DAYS_BEFORE_MONTH_def)

text \<open>
  The calendar: \<open>ord2ymd\<close> returns an existing date, and \<open>ymd2ord\<close> counts it back to
  the same ordinal.
\<close>

lemma days_before_year_decomp:
  fixes a b c e :: int
  assumes "0 \<le> b" "b \<le> 3" "0 \<le> c" "c \<le> 24" "0 \<le> e" "e \<le> 3"
  shows "days_before_year (400 * a + 100 * b + 4 * c + e + 1)
           = 146097 * a + 36524 * b + 1461 * c + 365 * e"
proof -
  define y where "y = 400 * a + 100 * b + 4 * c + e"
  have d4: "y div 4 = 100 * a + 25 * b + c"
    by (rule int_div_pos_eq [where r = e]) (use assms in \<open>simp_all add: y_def\<close>)
  have d100: "y div 100 = 4 * a + b"
    by (rule int_div_pos_eq [where r = "4 * c + e"]) (use assms in \<open>simp_all add: y_def\<close>)
  have d400: "y div 400 = a"
    by (rule int_div_pos_eq [where r = "100 * b + 4 * c + e"]) (use assms in \<open>simp_all add: y_def\<close>)
  show ?thesis
    unfolding days_before_year_def Let_def
    using d4 d100 d400 by (simp add: y_def)
qed

lemma is_leap_decomp:
  fixes a b c e :: int
  assumes "0 \<le> b" "b \<le> 3" "0 \<le> c" "c \<le> 24" "0 \<le> e" "e \<le> 3"
  shows "is_leap (400 * a + 100 * b + 4 * c + e + 1) \<longleftrightarrow> (e = 3 \<and> (c \<noteq> 24 \<or> b = 3))"
proof -
  define y where "y = 400 * a + 100 * b + 4 * c + e + 1"
  show ?thesis
  proof (cases "e = 3")
    case False
    have "y mod 4 = e + 1"
      by (rule int_mod_pos_eq [where q = "100 * a + 25 * b + c"])
         (use assms False in \<open>simp_all add: y_def\<close>)
    then have "y mod 4 \<noteq> 0" using assms by simp
    then show ?thesis using False by (simp add: is_leap_def y_def)
  next
    case e3: True
    have m4: "y mod 4 = 0"
      by (rule int_mod_pos_eq [where q = "100 * a + 25 * b + c + 1"])
         (use assms e3 in \<open>simp_all add: y_def\<close>)
    show ?thesis
    proof (cases "c = 24")
      case False
      have "y mod 100 = 4 * (c + 1)"
        by (rule int_mod_pos_eq [where q = "4 * a + b"])
           (use assms e3 False in \<open>simp_all add: y_def\<close>)
      then have "y mod 100 \<noteq> 0" using assms by simp
      then show ?thesis using False e3 m4 by (simp add: is_leap_def y_def)
    next
      case c24: True
      have m100: "y mod 100 = 0"
        by (rule int_mod_pos_eq [where q = "4 * a + b + 1"])
           (use assms e3 c24 in \<open>simp_all add: y_def\<close>)
      show ?thesis
      proof (cases "b = 3")
        case True
        have "y mod 400 = 0"
          by (rule int_mod_pos_eq [where q = "a + 1"])
             (use assms e3 c24 True in \<open>simp_all add: y_def\<close>)
        then show ?thesis using True e3 c24 m4 by (simp add: is_leap_def y_def)
      next
        case False
        have "y mod 400 = 100 * (b + 1)"
          by (rule int_mod_pos_eq [where q = "a"])
             (use assms e3 c24 False in \<open>simp_all add: y_def\<close>)
        then have "y mod 400 \<noteq> 0" using assms by simp
        then show ?thesis using False e3 c24 m4 m100 by (simp add: is_leap_def y_def)
      qed
    qed
  qed
qed

text \<open>
  The month and day that \<open>ord2ymd\<close> computes from the day \<open>r\<close> within a year: they are
  a month and a day of that month, at distance \<open>r\<close> from the first of January.
\<close>

lemma month_split:
  fixes r :: int and L :: bool
  assumes "0 \<le> r" "r \<le> 364"
  defines "month \<equiv> (r + 50) div 32"
  defines "preceding \<equiv> DAYS_BEFORE_MONTH ! nat month + (if month > 2 \<and> L then 1 else 0)"
  defines "res \<equiv> (if preceding > r
             then (month - 1, r - (preceding - (DAYS_IN_MONTH ! nat (month - 1) + (if month - 1 = 2 \<and> L then 1 else 0))) + 1)
             else (month, r - preceding + 1))"
  shows "1 \<le> fst res \<and> fst res \<le> 12 \<and> 1 \<le> snd res
        \<and> snd res \<le> (if fst res = 2 \<and> L then 29 else DAYS_IN_MONTH ! nat (fst res))
        \<and> DAYS_BEFORE_MONTH ! nat (fst res) + (if fst res > 2 \<and> L then 1 else 0) + snd res = r + 1"
proof -
  have "1 \<le> month" "month \<le> 12" using assms(1,2) unfolding month_def by linarith+
  then have "month = 1 \<or> month = 2 \<or> month = 3 \<or> month = 4 \<or> month = 5 \<or> month = 6
    \<or> month = 7 \<or> month = 8 \<or> month = 9 \<or> month = 10 \<or> month = 11 \<or> month = 12"
    by arith
  then consider "month = 1" | "month = 2" | "month = 3" | "month = 4" | "month = 5" | "month = 6"
    | "month = 7" | "month = 8" | "month = 9" | "month = 10" | "month = 11" | "month = 12"
    by blast
  then show ?thesis
  proof cases
    case 1
    then have "r < 14" unfolding month_def using assms(1,2) by linarith
    then show ?thesis using 1 assms(1) unfolding res_def preceding_def
      by (simp add: DAYS_BEFORE_MONTH_def DAYS_IN_MONTH_def)
  next
    case 2
    then have "14 \<le> r" "r < 46" unfolding month_def using assms(1,2) by linarith+
    then show ?thesis using 2 unfolding res_def preceding_def
      by (simp add: DAYS_BEFORE_MONTH_def DAYS_IN_MONTH_def)
  next
    case 3
    then have "46 \<le> r" "r < 78" unfolding month_def using assms(1,2) by linarith+
    then show ?thesis using 3 unfolding res_def preceding_def
      by (simp add: DAYS_BEFORE_MONTH_def DAYS_IN_MONTH_def)
  next
    case 4
    then have "78 \<le> r" "r < 110" unfolding month_def using assms(1,2) by linarith+
    then show ?thesis using 4 unfolding res_def preceding_def
      by (simp add: DAYS_BEFORE_MONTH_def DAYS_IN_MONTH_def)
  next
    case 5
    then have "110 \<le> r" "r < 142" unfolding month_def using assms(1,2) by linarith+
    then show ?thesis using 5 unfolding res_def preceding_def
      by (simp add: DAYS_BEFORE_MONTH_def DAYS_IN_MONTH_def)
  next
    case 6
    then have "142 \<le> r" "r < 174" unfolding month_def using assms(1,2) by linarith+
    then show ?thesis using 6 unfolding res_def preceding_def
      by (simp add: DAYS_BEFORE_MONTH_def DAYS_IN_MONTH_def)
  next
    case 7
    then have "174 \<le> r" "r < 206" unfolding month_def using assms(1,2) by linarith+
    then show ?thesis using 7 unfolding res_def preceding_def
      by (simp add: DAYS_BEFORE_MONTH_def DAYS_IN_MONTH_def)
  next
    case 8
    then have "206 \<le> r" "r < 238" unfolding month_def using assms(1,2) by linarith+
    then show ?thesis using 8 unfolding res_def preceding_def
      by (simp add: DAYS_BEFORE_MONTH_def DAYS_IN_MONTH_def)
  next
    case 9
    then have "238 \<le> r" "r < 270" unfolding month_def using assms(1,2) by linarith+
    then show ?thesis using 9 unfolding res_def preceding_def
      by (simp add: DAYS_BEFORE_MONTH_def DAYS_IN_MONTH_def)
  next
    case 10
    then have "270 \<le> r" "r < 302" unfolding month_def using assms(1,2) by linarith+
    then show ?thesis using 10 unfolding res_def preceding_def
      by (simp add: DAYS_BEFORE_MONTH_def DAYS_IN_MONTH_def)
  next
    case 11
    then have "302 \<le> r" "r < 334" unfolding month_def using assms(1,2) by linarith+
    then show ?thesis using 11 unfolding res_def preceding_def
      by (simp add: DAYS_BEFORE_MONTH_def DAYS_IN_MONTH_def)
  next
    case 12
    then have "334 \<le> r" unfolding month_def using assms(1,2) by linarith
    then show ?thesis using 12 assms(2) unfolding res_def preceding_def
      by (simp add: DAYS_BEFORE_MONTH_def DAYS_IN_MONTH_def)
  qed
qed


lemma ord2ymd_roundtrip:
  assumes "1 \<le> n" "n \<le> MAXORDINAL"
  shows "valid_ymd (ord2ymd n) \<and> ymd2ord (ord2ymd n) = n"
proof -
  define n0 where "n0 = n - 1"
  define a where "a = n0 div 146097"
  define r400 where "r400 = n0 mod 146097"
  define b where "b = r400 div 36524"
  define r100 where "r100 = r400 mod 36524"
  define c where "c = r100 div 1461"
  define r4 where "r4 = r100 mod 1461"
  define e where "e = r4 div 365"
  define r where "r = r4 mod 365"
  define L where "L \<longleftrightarrow> (e = 3 \<and> (c \<noteq> 24 \<or> b = 3))"
  have n0: "0 \<le> n0" "n0 \<le> 3652058" using assms by (simp_all add: n0_def MAXORDINAL_def)
  have eq1: "n0 = 146097 * a + r400" and r400: "0 \<le> r400" "r400 < 146097"
    by (simp_all add: a_def r400_def)
  have eq2: "r400 = 36524 * b + r100" and r100: "0 \<le> r100" "r100 < 36524"
    by (simp_all add: b_def r100_def)
  have eq3: "r100 = 1461 * c + r4" and r4: "0 \<le> r4" "r4 < 1461"
    by (simp_all add: c_def r4_def)
  have eq4: "r4 = 365 * e + r" and r: "0 \<le> r" "r < 365"
    by (simp_all add: e_def r_def)
  have a: "0 \<le> a" "a \<le> 24" using n0 eq1 r400 by linarith+
  have b: "0 \<le> b" "b \<le> 4" using eq2 r400 r100 by linarith+
  have c: "0 \<le> c" "c \<le> 24" using eq3 r100 r4 by linarith+
  have e: "0 \<le> e" "e \<le> 4" using eq4 r4 r by linarith+
  have ord: "ord2ymd n =
    (if e = 4 \<or> b = 4 then (400 * a + 100 * b + 4 * c + e, 12, 31)
     else let month = (r + 50) div 32;
              preceding = DAYS_BEFORE_MONTH ! nat month + (if month > 2 \<and> L then 1 else 0)
          in (if preceding > r
              then (400 * a + 100 * b + 4 * c + e + 1, month - 1,
                    r - (preceding - (DAYS_IN_MONTH ! nat (month - 1)
                                       + (if month - 1 = 2 \<and> L then 1 else 0))) + 1)
              else (400 * a + 100 * b + 4 * c + e + 1, month, r - preceding + 1)))"
    unfolding ord2ymd_def Let_def n0_def[symmetric] a_def[symmetric] r400_def[symmetric]
      b_def[symmetric] r100_def[symmetric] c_def[symmetric] r4_def[symmetric]
      e_def[symmetric] r_def[symmetric] L_def
    by (simp add: mult.commute)
  have n: "n = n0 + 1" by (simp add: n0_def)
  show ?thesis
  proof (cases "b = 4")
    case True
    then have z: "r100 = 0" using eq2 r400 r100 by linarith
    then have z2: "c = 0" "e = 0" "r = 0" by (simp_all add: c_def r4_def e_def r_def)
    have a23: "a \<le> 23" using n0 eq1 eq2 True z by linarith
    have o: "ord2ymd n = (400 * a + 100 * 3 + 4 * 24 + 3 + 1, 12, 31)"
      using ord True z2 by simp
    have dby: "days_before_year (400 * a + 100 * 3 + 4 * 24 + 3 + 1)
                 = 146097 * a + 36524 * 3 + 1461 * 24 + 365 * 3"
      by (rule days_before_year_decomp) simp_all
    have leap: "is_leap (400 * a + 100 * 3 + 4 * 24 + 3 + 1)"
      by (subst is_leap_decomp) simp_all
    have "n0 = 146097 * a + 146096" using eq1 eq2 True z by simp
    then show ?thesis using a a23 dby leap n
      unfolding o valid_ymd_def ymd2ord_def
      by (simp add: days_before_month_def days_in_month_def DAYS_BEFORE_MONTH_def
          DAYS_IN_MONTH_def)
  next
    case b4: False
    then have b3: "b \<le> 3" using b by simp
    show ?thesis
    proof (cases "e = 4")
      case True
      then have z: "r = 0" using eq4 r4 r by linarith
      have c23: "c \<le> 23" using eq3 eq4 True z r100 by linarith
      have o: "ord2ymd n = (400 * a + 100 * b + 4 * c + 3 + 1, 12, 31)"
        using ord True by simp
      have dby: "days_before_year (400 * a + 100 * b + 4 * c + 3 + 1)
                   = 146097 * a + 36524 * b + 1461 * c + 365 * 3"
        by (rule days_before_year_decomp) (use b b3 c in simp_all)
      have leap: "is_leap (400 * a + 100 * b + 4 * c + 3 + 1)"
        by (subst is_leap_decomp) (use b b3 c c23 in simp_all)
      have n0_eq: "n0 = 146097 * a + 36524 * b + 1461 * c + 1460"
        using eq1 eq2 eq3 eq4 True z by simp
      have y: "400 * a + 100 * b + 4 * c + 4 \<le> 9999" using n0 n0_eq a b b3 c c23 by arith
      show ?thesis using a b c dby leap y n n0_eq
        unfolding o valid_ymd_def ymd2ord_def
        by (simp add: days_before_month_def days_in_month_def DAYS_BEFORE_MONTH_def
            DAYS_IN_MONTH_def)
    next
      case False
      then have e3: "e \<le> 3" using e by simp
      define y where "y = 400 * a + 100 * b + 4 * c + e + 1"
      define month where "month = (r + 50) div 32"
      define preceding where
        "preceding = DAYS_BEFORE_MONTH ! nat month + (if month > 2 \<and> L then 1 else 0)"
      define res where "res = (if preceding > r
             then (month - 1, r - (preceding - (DAYS_IN_MONTH ! nat (month - 1)
                      + (if month - 1 = 2 \<and> L then 1 else 0))) + 1)
             else (month, r - preceding + 1))"
      have o: "ord2ymd n = (y, fst res, snd res)"
        using ord False b4
        by (simp add: Let_def y_def res_def preceding_def month_def)
      have dby: "days_before_year y = 146097 * a + 36524 * b + 1461 * c + 365 * e"
        unfolding y_def by (rule days_before_year_decomp) (use b b3 c e e3 in simp_all)
      have leap: "is_leap y = L"
        unfolding y_def L_def by (rule is_leap_decomp) (use b b3 c e e3 in simp_all)
      have n0_eq: "n0 = 146097 * a + 36524 * b + 1461 * c + 365 * e + r"
        using eq1 eq2 eq3 eq4 by simp
      have ms: "1 \<le> fst res \<and> fst res \<le> 12 \<and> 1 \<le> snd res
        \<and> snd res \<le> (if fst res = 2 \<and> L then 29 else DAYS_IN_MONTH ! nat (fst res))
        \<and> DAYS_BEFORE_MONTH ! nat (fst res) + (if fst res > 2 \<and> L then 1 else 0) + snd res = r + 1"
        unfolding res_def preceding_def month_def
        by (rule month_split) (use r in simp_all)
      have y1: "1 \<le> y" using a b c e by (simp add: y_def)
      have y2: "y \<le> 9999"
      proof (rule ccontr)
        assume "\<not> y \<le> 9999"
        then have "400 * a + 100 * b + 4 * c + e \<ge> 9999" by (simp add: y_def)
        with a b3 c e3 have "a = 24 \<and> b = 3 \<and> c = 24 \<and> e = 3" by arith
        with n0_eq n0 r show False by simp
      qed
      show ?thesis using ms y1 y2 dby leap n n0_eq
        unfolding o valid_ymd_def ymd2ord_def
        by (simp add: days_before_month_def days_in_month_def case_prod_beta)
    qed
  qed
qed


lemma map_exn_length: "map_exn f vs = Inr ys \<Longrightarrow> length ys = length vs"
proof (induction vs arbitrary: ys)
  case Nil
  then show ?case by simp
next
  case (Cons a vs)
  then show ?case by (cases "f a"; cases "map_exn f vs") auto
qed

lemma map_exn_map: "map_exn (\<lambda>x. Inr (g x)) xs = Inr (map g xs)"
  by (induction xs) simp_all

section \<open>The profile transport\<close>

lemma fetch_predictions_cases:
  "fetch_predictions env lat lon date filename api_url w =
     (case respond env (posts w) (profile_request lat lon date api_url) of
        Inl exc \<Rightarrow> (Inr None, w\<lparr>posts := posts w @ [profile_request lat lon date api_url]\<rparr>)
      | Inr r \<Rightarrow>
          if status_code r = 200
             \<and> startswith (case content_type r of None \<Rightarrow> [] | Some c \<Rightarrow> c) ''application/x-netcdf''
             \<and> open_wb env filename = None
          then (Inr (Some filename),
                w\<lparr>posts := posts w @ [profile_request lat lon date api_url],
                  files := (files w)(filename \<mapsto> resp_content r)\<rparr>)
          else (Inr None, w\<lparr>posts := posts w @ [profile_request lat lon date api_url]\<rparr>))"
  by (auto simp: fetch_predictions_def http_post_def write_file_def split: sum.splits option.splits)

text \<open>
  C4. Whatever the service answers to the request of \<open>fetch_predictions\<close>, with \<open>sent\<close>
  the world after the request: a status other than 200 gives \<open>None\<close>; a content type that
  does not start with \<open>application/x-netcdf\<close> gives \<open>None\<close>, also with status 200; an
  exception raised by the request gives \<open>None\<close> and is not raised further; so does a write
  that fails; in all these cases no file is written. Nothing at all is raised. The result is
  the output file name exactly when the status is 200, the content type matches and the
  write succeeds, and then the file holds the body of the response.
\<close>

theorem fetch_predictions_outcome:
  fixes env :: "'r env"
  assumes "call = profile_request lat lon date api_url"
    and "run = fetch_predictions env lat lon date filename api_url w"
    and "sent = w\<lparr>posts := posts w @ [call]\<rparr>"
  shows "(\<forall>r. respond env (posts w) call = Inr r \<and> status_code r \<noteq> 200 \<longrightarrow>
            run = (Inr None, sent))
       \<and> (\<forall>r. respond env (posts w) call = Inr r
              \<and> \<not> startswith (case content_type r of None \<Rightarrow> [] | Some c \<Rightarrow> c)
                               ''application/x-netcdf''
            \<longrightarrow> run = (Inr None, sent))
       \<and> (\<forall>exc. respond env (posts w) call = Inl exc \<longrightarrow> run = (Inr None, sent))
       \<and> (\<forall>r exc. respond env (posts w) call = Inr r \<and> open_wb env filename = Some exc
            \<longrightarrow> run = (Inr None, sent))
       \<and> (\<forall>r. respond env (posts w) call = Inr r \<and> status_code r = 200
              \<and> startswith (case content_type r of None \<Rightarrow> [] | Some c \<Rightarrow> c)
                             ''application/x-netcdf''
              \<and> open_wb env filename = None
            \<longrightarrow> run = (Inr (Some filename),
                       sent\<lparr>files := (files sent)(filename \<mapsto> resp_content r)\<rparr>))
       \<and> (\<forall>e. fst run \<noteq> Inl e)
       \<and> (\<forall>f. fst run = Inr (Some f) \<longleftrightarrow>
              f = filename
              \<and> (\<exists>r. respond env (posts w) call = Inr r \<and> status_code r = 200
                    \<and> startswith (case content_type r of None \<Rightarrow> [] | Some c \<Rightarrow> c)
                                  ''application/x-netcdf''
                    \<and> open_wb env filename = None
                    \<and> files (snd run) filename = Some (resp_content r)))"
  unfolding assms fetch_predictions_cases
  by (auto split: sum.splits)

theorem fetch_predictions_outcome_witness:
  "fetch_predictions env_error_status (TList [Finite 25]) (TList [Finite (- 90)])
       [''2020-01-01''] ''out.nc'' None example_world
     = (Inr None,
        example_world\<lparr>posts := [profile_request (TList [Finite 25]) (TList [Finite (- 90)])
                                   [''2020-01-01''] None]\<rparr>)
   \<and> fetch_predictions env_html (TList [Finite 25]) (TList [Finite (- 90)])
       [''2020-01-01''] ''out.nc'' None example_world
     = (Inr None,
        example_world\<lparr>posts := [profile_request (TList [Finite 25]) (TList [Finite (- 90)])
                                   [''2020-01-01''] None]\<rparr>)
   \<and> fetch_predictions env_timeout (TList [Finite 25]) (TList [Finite (- 90)])
       [''2020-01-01''] ''out.nc'' None example_world
     = (Inr None,
        example_world\<lparr>posts := [profile_request (TList [Finite 25]) (TList [Finite (- 90)])
                                   [''2020-01-01''] None]\<rparr>)
   \<and> fetch_predictions env_read_only (TList [Finite 25]) (TList [Finite (- 90)])
       [''2020-01-01''] ''out.nc'' None example_world
     = (Inr None,
        example_world\<lparr>posts := [profile_request (TList [Finite 25]) (TList [Finite (- 90)])
                                   [''2020-01-01''] None]\<rparr>)
   \<and> fetch_predictions example_env (TList [Finite 25]) (TList [Finite (- 90)])
       [''2020-01-01''] ''out.nc'' None example_world
     = (Inr (Some ''out.nc''),
        example_world\<lparr>posts := [profile_request (TList [Finite 25]) (TList [Finite (- 90)])
                                   [''2020-01-01''] None],
                      files := [''out.nc'' \<mapsto> ''CDF'']\<rparr>)"
proof -
  note t = fetch_predictions_outcome [OF refl refl refl, where lat = "TList [Finite 25]"
      and lon = "TList [Finite (- 90)]" and date = "[''2020-01-01'']"
      and filename = "''out.nc''" and api_url = None and w = example_world]
  have c1: "fetch_predictions env_error_status (TList [Finite 25]) (TList [Finite (- 90)])
       [''2020-01-01''] ''out.nc'' None example_world
     = (Inr None,
        example_world\<lparr>posts := [profile_request (TList [Finite 25]) (TList [Finite (- 90)])
                                   [''2020-01-01''] None]\<rparr>)"
    using t [where env = env_error_status]
    by (simp add: env_error_status_def example_env_def error_response_def example_world_def)
  have c2: "fetch_predictions env_html (TList [Finite 25]) (TList [Finite (- 90)])
       [''2020-01-01''] ''out.nc'' None example_world
     = (Inr None,
        example_world\<lparr>posts := [profile_request (TList [Finite 25]) (TList [Finite (- 90)])
                                   [''2020-01-01''] None]\<rparr>)"
    using t [where env = env_html]
    by (simp add: env_html_def example_env_def html_response_def startswith_def
        example_world_def)
  have c3: "fetch_predictions env_timeout (TList [Finite 25]) (TList [Finite (- 90)])
       [''2020-01-01''] ''out.nc'' None example_world
     = (Inr None,
        example_world\<lparr>posts := [profile_request (TList [Finite 25]) (TList [Finite (- 90)])
                                   [''2020-01-01''] None]\<rparr>)"
    using t [where env = env_timeout]
    by (simp add: env_timeout_def example_env_def example_world_def)
  have c4: "fetch_predictions env_read_only (TList [Finite 25]) (TList [Finite (- 90)])
       [''2020-01-01''] ''out.nc'' None example_world
     = (Inr None,
        example_world\<lparr>posts := [profile_request (TList [Finite 25]) (TList [Finite (- 90)])
                                   [''2020-01-01''] None]\<rparr>)"
    using t [where env = env_read_only]
    by (simp add: env_read_only_def example_env_def example_world_def)
  have c5: "fetch_predictions example_env (TList [Finite 25]) (TList [Finite (- 90)])
       [''2020-01-01''] ''out.nc'' None example_world
     = (Inr (Some ''out.nc''),
        example_world\<lparr>posts := [profile_request (TList [Finite 25]) (TList [Finite (- 90)])
                                   [''2020-01-01''] None],
                      files := [''out.nc'' \<mapsto> ''CDF'']\<rparr>)"
    using t [where env = example_env]
    by (simp add: example_env_def netcdf_response_def startswith_def example_world_def)
  from c1 c2 c3 c4 c5 show ?thesis by blast
qed

section \<open>Validation of grid queries\<close>









lemmas strptime_evals =
  strptime_ymd_def match_year_def match_month_def match_dash_def match_day_def is_digit_def
  digit_val_def mk_datetime_def valid_ymd_def days_in_month_def is_leap_def ymd2ord_def
  days_before_year_def days_before_month_def DAYS_IN_MONTH_def DAYS_BEFORE_MONTH_def

lemma strptime_examples:
  "strptime_ymd ''2024-03-01'' = Inr 738946"
  "strptime_ymd ''2024-13-01'' = Inl ValueError"
  "strptime_ymd ''2023-02-29'' = Inl ValueError"
  "strptime_ymd ''01/03/2024'' = Inl ValueError"
  "strptime_ymd ''2024-3-1'' = Inr 738946"
  by (simp_all add: strptime_evals)


lemma ensure_dir_example: "ensure_grid_output_dir example_env = Inr ()"
  by (simp add: ensure_grid_output_dir_def example_env_def)


section \<open>Successful grid queries\<close>

lemma py_format_f_of_float: "py_float v = Inr f \<Longrightarrow> py_format_f n v = Inr (fmt_f n f)"
  by (cases v) (auto simp: then_do_def split: sum.splits)

text \<open>
  A query that passes the checks makes one request, and its result depends on the answer
  as follows.
\<close>

lemma query_grid_checked:
  assumes "ensure_grid_output_dir env = Inr ()" and "strptime_ymd date_str = Inr t"
    and "checked_bbox bbox = Inr request_bbox"
    and "checked_resolution resolution = Inr request_resolution"
    and "call = grid_request date_str request_bbox request_resolution api_url"
    and "w1 = w\<lparr>posts := posts w @ [call]\<rparr>"
  shows "query_grid env date_str bbox resolution api_url w =
     (case respond env (posts w) call of
        Inl exc \<Rightarrow>
          if exc = RequestsTimeout then (Inr (failure ''Request timed out''), w1)
          else (Inr (failure_exn exc), w1)
      | Inr response \<Rightarrow>
          if status_code response = 200 then
            (case grid_output_filename date_str bbox resolution of
               Inl exc \<Rightarrow> (Inr (failure_exn exc), w1)
             | Inr output_filename \<Rightarrow>
                 (case open_wb env (GRID_OUTPUT_DIR @ ''/'' @ output_filename) of
                    Some exc \<Rightarrow> (Inr (failure_exn exc), w1)
                  | None \<Rightarrow>
                      (Inr \<lparr>r_success = True,
                            r_filename = Some (GRID_OUTPUT_DIR @ ''/'' @ output_filename),
                            r_size_bytes = Some (length (resp_content response)),
                            r_status_code = Some (status_code response),
                            r_error = None\<rparr>,
                       w1\<lparr>files := (files w1)(GRID_OUTPUT_DIR @ ''/'' @ output_filename
                                               \<mapsto> resp_content response)\<rparr>)))
          else
            (Inr \<lparr>r_success = False, r_filename = None, r_size_bytes = None,
                  r_status_code = Some (status_code response),
                  r_error = Some (Text (resp_text response))\<rparr>, w1))"
  using assms
  by (simp add: query_grid_def http_post_def write_file_def Let_def
      split: sum.splits option.splits)

lemma query_grid_success_checked:
  assumes "query_grid env date_str bbox resolution api_url w = (Inr result, w')"
    and "r_success result"
  shows "\<exists>t request_bbox request_resolution.
           ensure_grid_output_dir env = Inr () \<and> strptime_ymd date_str = Inr t
           \<and> checked_bbox bbox = Inr request_bbox
           \<and> checked_resolution resolution = Inr request_resolution"
proof -
  have 1: "ensure_grid_output_dir env = Inr ()"
    using assms(1) by (cases "ensure_grid_output_dir env") (auto simp: query_grid_def)
  obtain t where 2: "strptime_ymd date_str = Inr t"
    using assms 1 by (cases "strptime_ymd date_str") (auto simp: query_grid_def failure_def)
  obtain rb where 3: "checked_bbox bbox = Inr rb"
    using assms 1 2 by (cases "checked_bbox bbox") (auto simp: query_grid_def failure_def)
  obtain rr where 4: "checked_resolution resolution = Inr rr"
    using assms 1 2 3
    by (cases "checked_resolution resolution") (auto simp: query_grid_def failure_def)
  from 1 2 3 4 show ?thesis by blast
qed

lemma checked_bbox_Inr:
  assumes "checked_bbox bbox = Inr request_bbox"
  shows "bbox = None \<and> request_bbox = None
       \<or> (\<exists>a b c d lon_min lat_min lon_max lat_max.
             bbox = Some (BBoxSeq [a, b, c, d])
             \<and> py_float a = Inr lon_min \<and> py_float b = Inr lat_min
             \<and> py_float c = Inr lon_max \<and> py_float d = Inr lat_max
             \<and> request_bbox = Some [lon_min, lat_min, lon_max, lat_max])"
proof (cases bbox)
  case None
  with assms show ?thesis by (simp add: checked_bbox_def)
next
  case (Some b)
  with assms obtain fs where v: "validate_bbox b = Inr fs" and rb: "request_bbox = Some fs"
    by (auto simp: checked_bbox_def split: sum.splits)
  from v obtain vs where b: "b = BBoxSeq vs" by (cases b) auto
  with v have len: "length vs = 4" by (auto split: if_splits)
  then obtain a b' c d where vs: "vs = [a, b', c, d]"
    by (auto simp: length_Suc_conv numeral_eq_Suc)
  from v b vs obtain ms where ms: "map_exn py_float [a, b', c, d] = Inr ms"
    by (cases "map_exn py_float [a, b', c, d]") auto
  then obtain f1 f2 f3 f4 where fl: "py_float a = Inr f1" "py_float b' = Inr f2"
      "py_float c = Inr f3" "py_float d = Inr f4" and ms': "ms = [f1, f2, f3, f4]"
    by (auto split: sum.splits)
  from v b vs fl have "fs = [f1, f2, f3, f4]"
    by (auto simp: Let_def split: if_splits)
  with Some b vs fl rb show ?thesis by blast
qed

lemma checked_resolution_Inr:
  assumes "checked_resolution resolution = Inr request_resolution"
  shows "resolution = None \<and> request_resolution = None
       \<or> (\<exists>r f. resolution = Some r \<and> py_float r = Inr f \<and> float_lt (Finite 0) f
             \<and> request_resolution = Some f)"
  using assms
  by (cases resolution)
     (auto simp: checked_resolution_def validate_resolution_def split: sum.splits if_splits)

lemma grid_output_filename_plain:
  "grid_output_filename date_str None None = Inr (''nespreso_grid_'' @ date_str @ ''.nc'')"
  by (simp add: grid_output_filename_def bbox_part_def resolution_part_def then_do_def)

lemma bbox_part_floats:
  assumes "py_float a = Inr lon_min" "py_float b = Inr lat_min"
    "py_float c = Inr lon_max" "py_float d = Inr lat_max"
  shows "bbox_part (Some (BBoxSeq [a, b, c, d]))
           = Inr (''_bbox_'' @ fmt_f 2 lon_min @ ''_'' @ fmt_f 2 lat_min @ ''_''
                   @ fmt_f 2 lon_max @ ''_'' @ fmt_f 2 lat_max)"
  using assms [THEN py_format_f_of_float, of 2]
  by (simp add: bbox_part_def py_index_def then_do_def)

lemma resolution_part_float:
  assumes "py_float r = Inr f"
  shows "resolution_part (Some r) = Inr (''_res_'' @ fmt_f 3 f)"
  using assms by (simp add: resolution_part_def then_do_def)

text \<open>
  C6. A successful grid query reports the path \<open>uses/grid/nespreso_grid_{date}\<close>, then
  \<open>_bbox_\<close> and the four bounds in the \<open>.2f\<close> format joined by \<open>_\<close> when a bbox was
  given, then \<open>_res_\<close> and the resolution in the \<open>.3f\<close> format when a resolution was
  given, then \<open>.nc\<close>; with neither, the name is \<open>nespreso_grid_{date}.nc\<close>.
\<close>

theorem grid_output_file_name:
  fixes env :: "'r env"
  assumes "query_grid env date_str bbox resolution api_url w = (Inr result, w')"
    and "r_success result"
  shows "\<exists>bbox_text res_text.
      r_filename result
        = Some (''uses/grid/'' @ ''nespreso_grid_'' @ date_str @ bbox_text @ res_text @ ''.nc'')
    \<and> (bbox = None \<and> bbox_text = []
       \<or> (\<exists>a b c d lon_min lat_min lon_max lat_max.
             bbox = Some (BBoxSeq [a, b, c, d])
             \<and> py_float a = Inr lon_min \<and> py_float b = Inr lat_min
             \<and> py_float c = Inr lon_max \<and> py_float d = Inr lat_max
             \<and> bbox_text = ''_bbox_'' @ fmt_f 2 lon_min @ ''_'' @ fmt_f 2 lat_min @ ''_''
                              @ fmt_f 2 lon_max @ ''_'' @ fmt_f 2 lat_max))
    \<and> (resolution = None \<and> res_text = []
       \<or> (\<exists>r f. resolution = Some r \<and> py_float r = Inr f
             \<and> res_text = ''_res_'' @ fmt_f 3 f))"
proof -
  from query_grid_success_checked [OF assms] obtain t rb rr where
    c: "ensure_grid_output_dir env = Inr ()" "strptime_ymd date_str = Inr t"
       "checked_bbox bbox = Inr rb" "checked_resolution resolution = Inr rr"
    by blast
  have b: "bbox = None \<and> bbox_part bbox = Inr []
       \<or> (\<exists>a b c d lon_min lat_min lon_max lat_max.
             bbox = Some (BBoxSeq [a, b, c, d])
             \<and> py_float a = Inr lon_min \<and> py_float b = Inr lat_min
             \<and> py_float c = Inr lon_max \<and> py_float d = Inr lat_max
             \<and> bbox_part bbox = Inr (''_bbox_'' @ fmt_f 2 lon_min @ ''_'' @ fmt_f 2 lat_min
                                     @ ''_'' @ fmt_f 2 lon_max @ ''_'' @ fmt_f 2 lat_max))"
    using checked_bbox_Inr [OF c(3)]
  proof (elim disjE conjE exE)
    assume "bbox = None"
    then show ?thesis by (simp add: bbox_part_def)
  next
    fix a b c d lon_min lat_min lon_max lat_max
    assume h: "bbox = Some (BBoxSeq [a, b, c, d])" "py_float a = Inr lon_min"
      "py_float b = Inr lat_min" "py_float c = Inr lon_max" "py_float d = Inr lat_max"
    from bbox_part_floats [OF h(2-5)] h show ?thesis by blast
  qed
  have r: "resolution = None \<and> resolution_part resolution = Inr []
       \<or> (\<exists>r f. resolution = Some r \<and> py_float r = Inr f
             \<and> resolution_part resolution = Inr (''_res_'' @ fmt_f 3 f))"
    using checked_resolution_Inr [OF c(4)]
    by (auto simp: resolution_part_def then_do_def)
  from b obtain bt where bt: "bbox_part bbox = Inr bt" by blast
  from r obtain rt where rt: "resolution_part resolution = Inr rt" by blast
  have name: "grid_output_filename date_str bbox resolution
                = Inr (''nespreso_grid_'' @ date_str @ bt @ rt @ ''.nc'')"
    by (simp add: grid_output_filename_def bt rt then_do_def)
  have "r_filename result
          = Some (''uses/grid/'' @ ''nespreso_grid_'' @ date_str @ bt @ rt @ ''.nc'')"
    using assms
    unfolding query_grid_checked [OF c refl refl] name
    by (auto simp: failure_def failure_exn_def GRID_OUTPUT_DIR_def
        split: sum.splits if_splits option.splits)
  with b r bt rt show ?thesis by auto
qed

lemma floor_rat_numeral_div:
  "\<lfloor>numeral a / numeral b :: rat\<rfloor> = numeral a div numeral b"
  "\<lfloor>1 / numeral b :: rat\<rfloor> = 1 div numeral b"
  using floor_divide_of_int_eq [of "numeral a" "numeral b", where ?'a = rat]
    floor_divide_of_int_eq [of 1 "numeral b", where ?'a = rat]
  by simp_all

lemmas fmt_f_evals =
  fmt_f.simps fixed_digits_def round_half_even_def string_evals Let_def floor_rat_numeral_div

lemma fmt_f_examples:
  "fmt_f 2 (Finite (- 97)) = ''-97.00''"
  "fmt_f 2 (Finite 18) = ''18.00''"
  "fmt_f 3 (Finite (1 / 4)) = ''0.250''"
  "fmt_f 2 (Finite (1 / 8)) = ''0.12''"
  "fmt_f 2 (Finite (3 / 8)) = ''0.38''"
  "fmt_f 2 (Finite (- 1 / 1000)) = ''-0.00''"
  "fmt_f 2 (Finite (1999 / 1000)) = ''2.00''"
  by (simp_all add: fmt_f_evals)

lemma example_bbox_checked:
  "checked_bbox (Some (BBoxSeq [PyFloat (Finite (- 97)), PyFloat (Finite 18),
                               PyFloat (Finite (- 82)), PyFloat (Finite 31)]))
     = Inr (Some [Finite (- 97), Finite 18, Finite (- 82), Finite 31])"
  by (simp add: checked_bbox_def float_le_def float_lt_def)

lemma example_resolution_checked:
  "checked_resolution (Some (PyFloat (Finite (1 / 4)))) = Inr (Some (Finite (1 / 4)))"
  by (simp add: checked_resolution_def validate_resolution_def float_lt_def)

lemma example_grid_runs:
  "\<exists>result w'. query_grid example_env ''2024-03-01'' None None DEFAULT_API_URL example_world
                  = (Inr result, w') \<and> r_success result"
  "\<exists>result w'. query_grid example_env ''2024-03-01''
                    (Some (BBoxSeq [PyFloat (Finite (- 97)), PyFloat (Finite 18),
                                    PyFloat (Finite (- 82)), PyFloat (Finite 31)]))
                    (Some (PyFloat (Finite (1 / 4)))) DEFAULT_API_URL example_world
                  = (Inr result, w') \<and> r_success result"
proof -
  have d: "strptime_ymd ''2024-03-01'' = Inr 738946" by (simp add: strptime_evals)
  have n: "checked_bbox None = Inr None" "checked_resolution None = Inr None"
    by (simp_all add: checked_bbox_def checked_resolution_def)
  show "\<exists>result w'. query_grid example_env ''2024-03-01'' None None DEFAULT_API_URL example_world
                  = (Inr result, w') \<and> r_success result"
    unfolding query_grid_checked [OF ensure_dir_example d n refl refl]
    by (simp add: example_env_def netcdf_response_def grid_output_filename_plain)
  show "\<exists>result w'. query_grid example_env ''2024-03-01''
                    (Some (BBoxSeq [PyFloat (Finite (- 97)), PyFloat (Finite 18),
                                    PyFloat (Finite (- 82)), PyFloat (Finite 31)]))
                    (Some (PyFloat (Finite (1 / 4)))) DEFAULT_API_URL example_world
                  = (Inr result, w') \<and> r_success result"
    unfolding query_grid_checked [OF ensure_dir_example d example_bbox_checked
        example_resolution_checked refl refl]
    by (simp add: example_env_def netcdf_response_def grid_output_filename_def
        bbox_part_floats resolution_part_float then_do_def)
qed

theorem grid_output_file_name_witness:
  "(\<exists>result w'. query_grid example_env ''2024-03-01'' None None DEFAULT_API_URL example_world
                  = (Inr result, w') \<and> r_success result
       \<and> r_filename result = Some ''uses/grid/nespreso_grid_2024-03-01.nc'')
   \<and> (\<exists>result w'. query_grid example_env ''2024-03-01''
                    (Some (BBoxSeq [PyFloat (Finite (- 97)), PyFloat (Finite 18),
                                    PyFloat (Finite (- 82)), PyFloat (Finite 31)]))
                    (Some (PyFloat (Finite (1 / 4)))) DEFAULT_API_URL example_world
                  = (Inr result, w') \<and> r_success result
       \<and> r_filename result
           = Some ''uses/grid/nespreso_grid_2024-03-01_bbox_-97.00_18.00_-82.00_31.00_res_0.250.nc'')"
proof (intro conjI)
  from example_grid_runs(1) obtain result w' where
    run: "query_grid example_env ''2024-03-01'' None None DEFAULT_API_URL example_world
            = (Inr result, w')" and ok: "r_success result" by blast
  from grid_output_file_name [OF run ok]
  have "r_filename result = Some ''uses/grid/nespreso_grid_2024-03-01.nc''" by auto
  with run ok show "\<exists>result w'. query_grid example_env ''2024-03-01'' None None DEFAULT_API_URL
                  example_world = (Inr result, w') \<and> r_success result
       \<and> r_filename result = Some ''uses/grid/nespreso_grid_2024-03-01.nc''" by blast
next
  from example_grid_runs(2) obtain result w' where
    run: "query_grid example_env ''2024-03-01''
                    (Some (BBoxSeq [PyFloat (Finite (- 97)), PyFloat (Finite 18),
                                    PyFloat (Finite (- 82)), PyFloat (Finite 31)]))
                    (Some (PyFloat (Finite (1 / 4)))) DEFAULT_API_URL example_world
            = (Inr result, w')" and ok: "r_success result" by blast
  from grid_output_file_name [OF run ok]
  have "r_filename result
          = Some ''uses/grid/nespreso_grid_2024-03-01_bbox_-97.00_18.00_-82.00_31.00_res_0.250.nc''"
    by (auto simp: fmt_f_evals)
  with run ok show "\<exists>result w'. query_grid example_env ''2024-03-01''
                    (Some (BBoxSeq [PyFloat (Finite (- 97)), PyFloat (Finite 18),
                                    PyFloat (Finite (- 82)), PyFloat (Finite 31)]))
                    (Some (PyFloat (Finite (1 / 4)))) DEFAULT_API_URL example_world
                  = (Inr result, w') \<and> r_success result
       \<and> r_filename result
           = Some ''uses/grid/nespreso_grid_2024-03-01_bbox_-97.00_18.00_-82.00_31.00_res_0.250.nc''"
    by blast
qed

section \<open>The transport of grid queries\<close>

text \<open>
  C7, as stated: the request of a grid query has the transport policy of the profile
  request, with a connect timeout of its own next to the total one and with redirects
  switched off. It fails on the query for 2024-03-01: its request passes the single timeout
  600 and no redirect argument, where the profile request passes 1800 with a connect timeout
  of 10 and switches redirects off.
\<close>

theorem grid_transport_differs:
  "map call_timeout
       (posts (snd (query_grid example_env ''2024-03-01'' None None DEFAULT_API_URL
                      example_world)))
     = [SingleTimeout 600]
   \<and> map call_follow_redirects
       (posts (snd (query_grid example_env ''2024-03-01'' None None DEFAULT_API_URL
                      example_world)))
     = [None]
   \<and> map call_timeout
       (posts (snd (fetch_predictions example_env (TList [Finite 25]) (TList [Finite (- 90)])
                      [''2020-01-01''] ''out.nc'' None example_world)))
     = [SplitTimeout 1800 10]
   \<and> map call_follow_redirects
       (posts (snd (fetch_predictions example_env (TList [Finite 25]) (TList [Finite (- 90)])
                      [''2020-01-01''] ''out.nc'' None example_world)))
     = [Some False]"
proof -
  have d: "strptime_ymd ''2024-03-01'' = Inr 738946" by (simp add: strptime_evals)
  have n: "checked_bbox None = Inr None" "checked_resolution None = Inr None"
    by (simp_all add: checked_bbox_def checked_resolution_def)
  have "posts (snd (query_grid example_env ''2024-03-01'' None None DEFAULT_API_URL
                      example_world))
          = [grid_request ''2024-03-01'' None None DEFAULT_API_URL]"
    unfolding query_grid_checked [OF ensure_dir_example d n refl refl]
    by (simp add: example_env_def netcdf_response_def grid_output_filename_plain
        example_world_def)
  moreover have "posts (snd (fetch_predictions example_env (TList [Finite 25])
                      (TList [Finite (- 90)]) [''2020-01-01''] ''out.nc'' None example_world))
          = [profile_request (TList [Finite 25]) (TList [Finite (- 90)]) [''2020-01-01''] None]"
    unfolding fetch_predictions_cases
    by (simp add: example_env_def netcdf_response_def startswith_def example_world_def)
  ultimately show ?thesis
    by (simp add: grid_request_def profile_request_def GRID_DEFAULT_TIMEOUT_def
        DEFAULT_TIMEOUT_def DEFAULT_CONNECT_TIMEOUT_def)
qed

text \<open>
  C7, amended: a grid query that passes validation makes exactly one request, a POST to the
  given URL with the fields that were provided, with the one timeout of 600 seconds that the
  HTTP library applies to connecting and to reading alike, and with no redirect argument, so
  that redirects are left to the library's default.
\<close>

theorem grid_query_single_request:
  fixes env :: "'r env"
  assumes "ensure_grid_output_dir env = Inr ()" and "strptime_ymd date_str = Inr t"
    and "checked_bbox bbox = Inr request_bbox"
    and "checked_resolution resolution = Inr request_resolution"
  shows "posts (snd (query_grid env date_str bbox resolution api_url w))
           = posts w @ [\<lparr>call_url = api_url,
                          call_json = GridBody date_str request_bbox request_resolution,
                          call_timeout = SingleTimeout 600,
                          call_follow_redirects = None\<rparr>]"
  unfolding query_grid_checked [OF assms refl refl]
  by (simp add: grid_request_def GRID_DEFAULT_TIMEOUT_def failure_def failure_exn_def
      split: sum.splits option.splits)

theorem grid_query_single_request_witness:
  "posts (snd (query_grid example_env ''2024-03-01''
                 (Some (BBoxSeq [PyFloat (Finite (- 97)), PyFloat (Finite 18),
                                 PyFloat (Finite (- 82)), PyFloat (Finite 31)]))
                 (Some (PyFloat (Finite (1 / 4)))) DEFAULT_API_URL example_world))
     = [\<lparr>call_url = DEFAULT_API_URL,
         call_json = GridBody ''2024-03-01''
                       (Some [Finite (- 97), Finite 18, Finite (- 82), Finite 31])
                       (Some (Finite (1 / 4))),
         call_timeout = SingleTimeout 600,
         call_follow_redirects = None\<rparr>]"
proof -
  have d: "strptime_ymd ''2024-03-01'' = Inr 738946" by (simp add: strptime_evals)
  show ?thesis
    using grid_query_single_request [OF ensure_dir_example d example_bbox_checked
        example_resolution_checked, of DEFAULT_API_URL example_world]
    by (simp add: example_world_def)
qed

section \<open>Splitting a point set into batches\<close>


















section \<open>What the batch orchestrator returns\<close>

















section \<open>Merging batch files\<close>






end
